theory Spec2Isabelle
  imports Main
begin

section \<open>The Go string helpers used by main.go\<close>

text \<open>
  Go strings are byte sequences; they are modelled as \<open>string\<close> (a list of characters).
  Only the helpers that main.go calls are modelled, each for the arguments it is
  called with there: a non-empty separator or pattern.
\<close>

text \<open>\<open>strings.HasPrefix(s, prefix)\<close>: the length test, then the comparison of the slice.\<close>

definition strings_HasPrefix :: "string \<Rightarrow> string \<Rightarrow> bool" where
  "strings_HasPrefix s pre = (length pre \<le> length s \<and> take (length pre) s = pre)"

text \<open>\<open>strings.Index(s, sep)\<close>: the position of the first occurrence, \<open>None\<close> for Go's -1.\<close>

fun strings_Index :: "string \<Rightarrow> string \<Rightarrow> nat option" where
  "strings_Index [] sep = (if sep = [] then Some 0 else None)"
| "strings_Index (c # cs) sep =
     (if strings_HasPrefix (c # cs) sep then Some 0
      else map_option Suc (strings_Index cs sep))"

text \<open>
  \<open>strings.Replace(s, old, new, n)\<close> for a non-empty \<open>old\<close> and \<open>n \<ge> 0\<close>: the first
  \<open>n\<close> non-overlapping occurrences are replaced, from the left.
\<close>

fun strings_Replace :: "string \<Rightarrow> string \<Rightarrow> string \<Rightarrow> nat \<Rightarrow> string" where
  "strings_Replace s old new 0 = s"
| "strings_Replace s old new (Suc n) =
     (if old = new then s
      else case strings_Index s old of
             None \<Rightarrow> s
           | Some i \<Rightarrow> take i s @ new @ strings_Replace (drop (i + length old) s) old new n)"

text \<open>
  \<open>strings.SplitN(s, sep, n)\<close> for a non-empty \<open>sep\<close> and \<open>n \<ge> 0\<close>, after Go's
  \<open>genSplit\<close>: no piece for \<open>n = 0\<close>; otherwise at most \<open>n - 1\<close> cuts, and the rest
  of the string is always the last piece.
\<close>

fun strings_SplitN :: "string \<Rightarrow> string \<Rightarrow> nat \<Rightarrow> string list" where
  "strings_SplitN s sep 0 = []"
| "strings_SplitN s sep (Suc 0) = [s]"
| "strings_SplitN s sep (Suc (Suc n)) =
     (case strings_Index s sep of
        None \<Rightarrow> [s]
      | Some m \<Rightarrow> take m s # strings_SplitN (drop (m + length sep) s) sep (Suc n))"

section \<open>JSON values and the two wire structs\<close>

text \<open>
  A body that \<open>encoding/json\<close> accepts is represented by the JSON value it denotes.
  A number literal that is a plain integer literal is \<open>JInt\<close>; any other number
  literal (a fraction, an exponent) is \<open>JFrac\<close> with its text.
\<close>

datatype json =
    JNull
  | JBool bool
  | JInt int
  | JFrac string
  | JString string
  | JArray "json list"
  | JObject "(string \<times> json) list"

text \<open>\<open>type FlareSolverrRequest struct\<close>\<close>

record FlareSolverrRequest =
  Cmd :: string
  URL :: string
  MaxTimeout :: int

text \<open>
  \<open>type FlareSolverrResponse struct\<close>; the anonymous struct of its field
  \<open>Solution\<close> is the record \<open>solution\<close>, whose integer field \<open>Status\<close> is named
  \<open>Solution_Status\<close> here (a record field name is global).
\<close>

record solution =
  Response :: string
  Solution_Status :: int
  Cookies :: "json list"
  UserAgent :: string

record FlareSolverrResponse =
  Solution :: solution
  Status :: string
  Message :: string

text \<open>The zero value of \<open>FlareSolverrResponse\<close>, which \<open>var flareResponse\<close> declares.\<close>

definition zero_solution :: solution where
  "zero_solution = \<lparr>Response = [], Solution_Status = 0, Cookies = [], UserAgent = []\<rparr>"

definition zero_FlareSolverrResponse :: FlareSolverrResponse where
  "zero_FlareSolverrResponse = \<lparr>Solution = zero_solution, Status = [], Message = []\<rparr>"

text \<open>
  \<open>json.Marshal(requestData)\<close>: the object with the three tagged fields, in the
  order of the struct. It cannot fail for this struct, so the branch
  \<open>Failed to marshal request\<close> of both handlers has no counterpart.
\<close>

definition json_Marshal :: "FlareSolverrRequest \<Rightarrow> json" where
  "json_Marshal rq =
     JObject [(''cmd'', JString (Cmd rq)), (''url'', JString (URL rq)),
              (''maxTimeout'', JInt (MaxTimeout rq))]"

subsection \<open>\<open>json.Unmarshal\<close> into \<open>FlareSolverrResponse\<close>\<close>

text \<open>
  The decoder goes through the members of an object in order. A key selects the
  field whose tag it equals, or else equals up to case (modelled for ASCII letters);
  a key that selects no field is skipped. \<open>null\<close> leaves a field as it is, a value
  of the wrong kind is an \<open>UnmarshalTypeError\<close>. A field that no member selects keeps
  its zero value. The first error is the one returned; since both handlers drop
  the struct when there is an error, decoding stops there in the model.
\<close>

datatype unmarshal_error =
    SyntaxError string
  | UnmarshalTypeError string string

text \<open>
  The text of the error value. For a type error it is abbreviated: the library also
  names the Go type of the field.
\<close>

fun error_text :: "unmarshal_error \<Rightarrow> string" where
  "error_text (SyntaxError t) = t"
| "error_text (UnmarshalTypeError v f) =
     ''json: cannot unmarshal '' @ v @ '' into Go struct field '' @ f"

definition ascii_upper :: "char \<Rightarrow> char" where
  "ascii_upper c =
     (let n = (of_char c :: nat) in if 97 \<le> n \<and> n \<le> 122 then char_of (n - 32) else c)"

definition key_is :: "string \<Rightarrow> string \<Rightarrow> bool" where
  "key_is k f = (k = f \<or> map ascii_upper k = map ascii_upper f)"

fun json_kind :: "json \<Rightarrow> string" where
  "json_kind JNull = ''null''"
| "json_kind (JBool b) = ''bool''"
| "json_kind (JInt n) = ''number''"
| "json_kind (JFrac t) = ''number''"
| "json_kind (JString s) = ''string''"
| "json_kind (JArray xs) = ''array''"
| "json_kind (JObject ms) = ''object''"

fun decode_string :: "string \<Rightarrow> string \<Rightarrow> json \<Rightarrow> unmarshal_error + string" where
  "decode_string f cur (JString s) = Inr s"
| "decode_string f cur JNull = Inr cur"
| "decode_string f cur v = Inl (UnmarshalTypeError (json_kind v) f)"

text \<open>Go's \<open>int\<close> has 64 bits on the platforms the Dockerfile builds for.\<close>

fun decode_int :: "string \<Rightarrow> int \<Rightarrow> json \<Rightarrow> unmarshal_error + int" where
  "decode_int f cur (JInt n) =
     (if - (2 ^ 63) \<le> n \<and> n < 2 ^ 63 then Inr n else Inl (UnmarshalTypeError ''number'' f))"
| "decode_int f cur JNull = Inr cur"
| "decode_int f cur v = Inl (UnmarshalTypeError (json_kind v) f)"

fun decode_slice :: "string \<Rightarrow> json list \<Rightarrow> json \<Rightarrow> unmarshal_error + json list" where
  "decode_slice f cur (JArray xs) = Inr xs"
| "decode_slice f cur JNull = Inr []"
| "decode_slice f cur v = Inl (UnmarshalTypeError (json_kind v) f)"

text \<open>The loop over the members of an object, stopping at the first error.\<close>

fun decode_members ::
  "('a \<Rightarrow> string \<times> json \<Rightarrow> unmarshal_error + 'a) \<Rightarrow> 'a \<Rightarrow> (string \<times> json) list
     \<Rightarrow> unmarshal_error + 'a" where
  "decode_members step a [] = Inr a"
| "decode_members step a (m # ms) =
     (case step a m of Inl e \<Rightarrow> Inl e | Inr a' \<Rightarrow> decode_members step a' ms)"

definition decode_solution_member ::
  "solution \<Rightarrow> string \<times> json \<Rightarrow> unmarshal_error + solution" where
  "decode_solution_member s m =
     (let k = fst m; v = snd m in
      if key_is k ''response'' then
        (case decode_string ''solution.response'' (Response s) v of
           Inl e \<Rightarrow> Inl e | Inr x \<Rightarrow> Inr (s\<lparr>Response := x\<rparr>))
      else if key_is k ''status'' then
        (case decode_int ''solution.status'' (Solution_Status s) v of
           Inl e \<Rightarrow> Inl e | Inr x \<Rightarrow> Inr (s\<lparr>Solution_Status := x\<rparr>))
      else if key_is k ''cookies'' then
        (case decode_slice ''solution.cookies'' (Cookies s) v of
           Inl e \<Rightarrow> Inl e | Inr x \<Rightarrow> Inr (s\<lparr>Cookies := x\<rparr>))
      else if key_is k ''userAgent'' then
        (case decode_string ''solution.userAgent'' (UserAgent s) v of
           Inl e \<Rightarrow> Inl e | Inr x \<Rightarrow> Inr (s\<lparr>UserAgent := x\<rparr>))
      else Inr s)"

fun decode_solution :: "solution \<Rightarrow> json \<Rightarrow> unmarshal_error + solution" where
  "decode_solution cur (JObject ms) = decode_members decode_solution_member cur ms"
| "decode_solution cur JNull = Inr cur"
| "decode_solution cur v = Inl (UnmarshalTypeError (json_kind v) ''solution'')"

definition decode_response_member ::
  "FlareSolverrResponse \<Rightarrow> string \<times> json \<Rightarrow> unmarshal_error + FlareSolverrResponse" where
  "decode_response_member r m =
     (let k = fst m; v = snd m in
      if key_is k ''solution'' then
        (case decode_solution (Solution r) v of
           Inl e \<Rightarrow> Inl e | Inr x \<Rightarrow> Inr (r\<lparr>Solution := x\<rparr>))
      else if key_is k ''status'' then
        (case decode_string ''status'' (Status r) v of
           Inl e \<Rightarrow> Inl e | Inr x \<Rightarrow> Inr (r\<lparr>Status := x\<rparr>))
      else if key_is k ''message'' then
        (case decode_string ''message'' (Message r) v of
           Inl e \<Rightarrow> Inl e | Inr x \<Rightarrow> Inr (r\<lparr>Message := x\<rparr>))
      else Inr r)"

fun decode_response :: "json \<Rightarrow> unmarshal_error + FlareSolverrResponse" where
  "decode_response (JObject ms) =
     decode_members decode_response_member zero_FlareSolverrResponse ms"
| "decode_response JNull = Inr zero_FlareSolverrResponse"
| "decode_response v = Inl (UnmarshalTypeError (json_kind v) '''')"

text \<open>
  The body read from the upstream: bytes that are not JSON, with the text of the
  syntax error \<open>json.Unmarshal\<close> reports for them, or the JSON value they denote.
\<close>

datatype raw_body = Invalid string | Valid json

fun json_Unmarshal :: "raw_body \<Rightarrow> unmarshal_error + FlareSolverrResponse" where
  "json_Unmarshal (Invalid t) = Inl (SyntaxError t)"
| "json_Unmarshal (Valid j) = decode_response j"

section \<open>HTTP: the inbound request, the upstream call, the response written\<close>

text \<open>
  The fields of \<open>*http.Request\<close> that the handlers read: \<open>r.Method\<close>, the text
  \<open>r.URL.String()\<close>, \<open>r.URL.Path\<close> and \<open>r.URL.RawQuery\<close>.
\<close>

record request =
  Method :: string
  URL_String :: string
  Path :: string
  RawQuery :: string

text \<open>
  The request that \<open>http.NewRequest\<close> builds and \<open>client.Do\<close> sends: its method,
  its URL, its headers and the JSON value its body encodes.
\<close>

record upstream_call =
  call_method :: string
  call_url :: string
  call_header :: "(string \<times> string) list"
  call_body :: json

text \<open>
  What one call gives back: \<open>client.Do\<close> fails (with the text of its error),
  \<open>io.ReadAll\<close> fails, or a body is read.
\<close>

datatype upstream_reply =
    DoError string
  | ReadAllError string
  | Body raw_body

text \<open>
  The surroundings of a handler: whether \<open>http.NewRequest\<close> rejects a URL (with
  the text of its error), and the upstream behind the HTTP client.
\<close>

record env =
  NewRequest_error :: "string \<Rightarrow> string option"
  client_Do :: "upstream_call \<Rightarrow> upstream_reply"

text \<open>
  What is written to the \<open>http.ResponseWriter\<close>: the status code, the headers set
  and the body, which is either raw bytes or the line that \<open>json.NewEncoder(w).Encode\<close>
  writes for a value.
\<close>

datatype payload = Bytes string | Encoded json

record response =
  code :: nat
  header :: "(string \<times> string) list"
  body :: payload

text \<open>
  The outcome of serving one request: the response, the upstream calls made (in
  order) and the lines logged (in order).
\<close>

record outcome =
  resp :: response
  calls :: "upstream_call list"
  logs :: "string list"

definition record_call :: "upstream_call \<Rightarrow> outcome \<Rightarrow> outcome" where
  "record_call c out = out\<lparr>calls := c # calls out\<rparr>"

definition log_Printf :: "string \<Rightarrow> outcome \<Rightarrow> outcome" where
  "log_Printf l out = out\<lparr>logs := l # logs out\<rparr>"

definition respond :: "response \<Rightarrow> outcome" where
  "respond rs = \<lparr>resp = rs, calls = [], logs = []\<rparr>"

text \<open>
  \<open>http.Error(w, msg, code)\<close>: a plain-text response whose body is the message
  followed by a newline (it is written with \<open>fmt.Fprintln\<close>).
\<close>

definition http_Error :: "string \<Rightarrow> nat \<Rightarrow> outcome" where
  "http_Error msg c =
     respond \<lparr>code = c,
              header = [(''Content-Type'', ''text/plain; charset=utf-8''),
                        (''X-Content-Type-Options'', ''nosniff'')],
              body = Bytes (msg @ [CHR 0x0A])\<rparr>"

definition StatusOK :: nat where "StatusOK = 200"
definition StatusBadRequest :: nat where "StatusBadRequest = 400"
definition StatusMethodNotAllowed :: nat where "StatusMethodNotAllowed = 405"
definition StatusInternalServerError :: nat where "StatusInternalServerError = 500"

section \<open>ProxyHandler\<close>

record ProxyHandler =
  p_flareSolverrURL :: string

text \<open>\<open>func (p *ProxyHandler) sendError\<close>\<close>

definition p_sendError :: "string \<Rightarrow> outcome" where
  "p_sendError message =
     log_Printf (''Error: '' @ message)
       (respond \<lparr>code = StatusInternalServerError,
                 header = [(''Content-Type'', ''application/json'')],
                 body = Encoded (JObject [(''error'', JString message)])\<rparr>)"

text \<open>\<open>func (p *ProxyHandler) sendConnectError\<close>\<close>

definition connect_message :: string where
  "connect_message =
     ''CONNECT method is not supported. This is an HTTP-only proxy adapter for FlareSolverr. '' @
     ''Please use HTTP URLs (e.g., http://example.com) even for HTTPS sites. '' @
     ''The proxy will automatically handle HTTPS conversion when communicating with FlareSolverr.''"

definition p_sendConnectError :: outcome where
  "p_sendConnectError =
     log_Printf (''CONNECT rejected: '' @ connect_message)
       (respond \<lparr>code = StatusMethodNotAllowed,
                 header = [(''Content-Type'', ''text/plain; charset=utf-8'')],
                 body = Bytes connect_message\<rparr>)"

text \<open>The three lines that end both handlers on success.\<close>

definition write_html :: "FlareSolverrResponse \<Rightarrow> outcome" where
  "write_html fr =
     respond \<lparr>code = StatusOK,
              header = [(''Content-Type'', ''text/html; charset=utf-8'')],
              body = Bytes (Response (Solution fr))\<rparr>"

definition new_call :: "string \<Rightarrow> FlareSolverrRequest \<Rightarrow> upstream_call" where
  "new_call base requestData =
     \<lparr>call_method = ''POST'', call_url = base,
      call_header = [(''Content-Type'', ''application/json'')],
      call_body = json_Marshal requestData\<rparr>"

text \<open>\<open>func (p *ProxyHandler) handleRequest\<close>\<close>

definition p_handleRequest :: "env \<Rightarrow> ProxyHandler \<Rightarrow> request \<Rightarrow> outcome" where
  "p_handleRequest e p r =
     (let url = strings_Replace (URL_String r) ''http://'' ''https://'' 1;
          requestData = \<lparr>Cmd = ''request.get'', URL = url, MaxTimeout = 60000\<rparr>
      in case NewRequest_error e (p_flareSolverrURL p) of
           Some err \<Rightarrow> p_sendError (''Failed to create request: '' @ err)
         | None \<Rightarrow>
             let req = new_call (p_flareSolverrURL p) requestData
             in record_call req
                  (case client_Do e req of
                     DoError err \<Rightarrow> p_sendError (''Failed to connect to FlareSolverr: '' @ err)
                   | ReadAllError err \<Rightarrow> p_sendError (''Failed to read response: '' @ err)
                   | Body b \<Rightarrow>
                       (case json_Unmarshal b of
                          Inl err \<Rightarrow> p_sendError (''Failed to parse response: '' @ error_text err)
                        | Inr flareResponse \<Rightarrow>
                            if Status flareResponse \<noteq> ''ok''
                            then p_sendError (''FlareSolverr error: '' @ Message flareResponse)
                            else write_html flareResponse)))"

text \<open>\<open>func (p *ProxyHandler) ServeHTTP\<close>\<close>

definition p_ServeHTTP :: "env \<Rightarrow> ProxyHandler \<Rightarrow> request \<Rightarrow> outcome" where
  "p_ServeHTTP e p r =
     (if Method r = ''GET'' then p_handleRequest e p r
      else if Method r = ''CONNECT'' then p_sendConnectError
      else http_Error ''Method not allowed'' StatusMethodNotAllowed)"

section \<open>DirectHandler\<close>

record DirectHandler =
  d_flareSolverrURL :: string

text \<open>\<open>func (d *DirectHandler) sendError\<close>\<close>

definition d_sendError :: "string \<Rightarrow> outcome" where
  "d_sendError message =
     log_Printf (''Error: '' @ message)
       (respond \<lparr>code = StatusInternalServerError,
                 header = [(''Content-Type'', ''application/json'')],
                 body = Encoded (JObject [(''error'', JString message)])\<rparr>)"

text \<open>
  \<open>func (d *DirectHandler) forwardToFlareSolverr\<close>, which calls itself once more
  with the \<open>http://\<close> URL when the upstream reports a failure for an \<open>https://\<close> one.
\<close>

lemma HasPrefix_Index:
  assumes "strings_HasPrefix s old"
  shows "strings_Index s old = Some 0"
  using assms by (cases s) (auto simp: strings_HasPrefix_def)

lemma Replace_prefix:
  assumes "strings_HasPrefix s old" and "old \<noteq> new"
  shows "strings_Replace s old new (Suc 0) = new @ drop (length old) s"
  using assms by (simp add: HasPrefix_Index)

lemma fallback_not_https:
  assumes "strings_HasPrefix u ''https://''"
  shows "\<not> strings_HasPrefix (strings_Replace u ''https://'' ''http://'' (Suc 0)) ''https://''"
proof -
  have "strings_Replace u ''https://'' ''http://'' (Suc 0) = ''http://'' @ drop (length ''https://'') u"
    by (rule Replace_prefix [OF assms]) simp
  then show ?thesis
    by (simp add: strings_HasPrefix_def)
qed

function d_forwardToFlareSolverr ::
  "env \<Rightarrow> DirectHandler \<Rightarrow> string \<Rightarrow> string \<Rightarrow> outcome" where
  "d_forwardToFlareSolverr e d targetURL cmd =
     (let requestData = \<lparr>Cmd = cmd, URL = targetURL, MaxTimeout = 60000\<rparr>
      in case NewRequest_error e (d_flareSolverrURL d) of
           Some err \<Rightarrow> d_sendError (''Failed to create request: '' @ err)
         | None \<Rightarrow>
             let req = new_call (d_flareSolverrURL d) requestData
             in record_call req
                  (case client_Do e req of
                     DoError err \<Rightarrow> d_sendError (''Failed to connect to FlareSolverr: '' @ err)
                   | ReadAllError err \<Rightarrow> d_sendError (''Failed to read response: '' @ err)
                   | Body b \<Rightarrow>
                       (case json_Unmarshal b of
                          Inl err \<Rightarrow> d_sendError (''Failed to parse response: '' @ error_text err)
                        | Inr flareResponse \<Rightarrow>
                            if Status flareResponse \<noteq> ''ok''
                            then if strings_HasPrefix targetURL ''https://''
                                 then let httpURL = strings_Replace targetURL ''https://'' ''http://'' 1
                                      in log_Printf (''HTTPS failed, trying HTTP fallback for: '' @ httpURL)
                                           (d_forwardToFlareSolverr e d httpURL cmd)
                                 else d_sendError (''FlareSolverr error: '' @ Message flareResponse)
                            else write_html flareResponse)))"
  by pat_completeness auto
termination
  by (relation "measure (\<lambda>(e, d, u, c). if strings_HasPrefix u ''https://'' then 1 else 0)")
     (auto simp del: strings_Replace.simps dest: fallback_not_https)

declare d_forwardToFlareSolverr.simps [simp del]

text \<open>\<open>func (d *DirectHandler) ServeHTTP\<close>\<close>

definition invalid_format :: string where
  "invalid_format = ''Invalid URL format. Use: http://localhost:PORT/domain.com/path''"

definition d_ServeHTTP :: "env \<Rightarrow> DirectHandler \<Rightarrow> request \<Rightarrow> outcome" where
  "d_ServeHTTP e d r =
     (let path = Path r
      in if path = ''/'' \<or> path = [] then http_Error invalid_format StatusBadRequest
         else
           let path = (if hd path = CHR ''/'' then tl path else path);
               parts = strings_SplitN path ''/'' 2
           in if length parts = 0 then http_Error invalid_format StatusBadRequest
              else
                let domain = parts ! 0;
                    remainingPath = (if length parts > 1 then ''/'' @ parts ! 1 else []);
                    remainingPath = (if RawQuery r \<noteq> [] then remainingPath @ ''?'' @ RawQuery r
                                     else remainingPath);
                    targetURL = ''https://'' @ domain @ remainingPath
                in if Method r = ''GET''
                   then d_forwardToFlareSolverr e d targetURL ''request.get''
                   else if Method r = ''POST''
                   then d_forwardToFlareSolverr e d targetURL ''request.post''
                   else log_Printf (''Warning: HTTP method '' @ Method r @
                                    '' may not be fully supported by FlareSolverr, using request.get'')
                          (d_forwardToFlareSolverr e d targetURL ''request.get''))"

section \<open>Notions used to state the properties\<close>

text \<open>\<open>strings.Contains(s, substr)\<close>, as main_test.go uses it on response bodies.\<close>

definition strings_Contains :: "string \<Rightarrow> string \<Rightarrow> bool" where
  "strings_Contains s substr = (strings_Index s substr \<noteq> None)"

text \<open>
  An upstream-reported failure: a body that decodes into the struct and whose
  \<open>status\<close> is not \<open>ok\<close>.
\<close>

fun reported_failure :: "upstream_reply \<Rightarrow> bool" where
  "reported_failure (Body b) =
     (case json_Unmarshal b of Inl err \<Rightarrow> False | Inr fr \<Rightarrow> Status fr \<noteq> ''ok'')"
| "reported_failure (DoError err) = False"
| "reported_failure (ReadAllError err) = False"

text \<open>The client-facing error payload: status 500 and the JSON object \<open>{"error": message}\<close>.\<close>

definition error_payload :: "string \<Rightarrow> response" where
  "error_payload message =
     \<lparr>code = 500, header = [(''Content-Type'', ''application/json'')],
      body = Encoded (JObject [(''error'', JString message)])\<rparr>"

text \<open>The success payload: status 200 and the HTML given, as \<open>text/html\<close>.\<close>

definition html_payload :: "string \<Rightarrow> response" where
  "html_payload html =
     \<lparr>code = 200, header = [(''Content-Type'', ''text/html; charset=utf-8'')],
      body = Bytes html\<rparr>"

text \<open>
  The message that stands for a reply which ends a request without success:
  the tag of the failing step and the text of its cause.
\<close>

fun failure_message :: "upstream_reply \<Rightarrow> string" where
  "failure_message (DoError err) = ''Failed to connect to FlareSolverr: '' @ err"
| "failure_message (ReadAllError err) = ''Failed to read response: '' @ err"
| "failure_message (Body b) =
     (case json_Unmarshal b of
        Inl err \<Rightarrow> ''Failed to parse response: '' @ error_text err
      | Inr fr \<Rightarrow> ''FlareSolverr error: '' @ Message fr)"

text \<open>A reply that is a success: it decodes and its \<open>status\<close> is \<open>ok\<close>.\<close>

fun ok_reply :: "upstream_reply \<Rightarrow> bool" where
  "ok_reply (Body b) =
     (case json_Unmarshal b of Inl err \<Rightarrow> False | Inr fr \<Rightarrow> Status fr = ''ok'')"
| "ok_reply (DoError err) = False"
| "ok_reply (ReadAllError err) = False"

text \<open>The HTML that a reply carries: \<open>solution.response\<close> of the decoded struct.\<close>

fun reply_html :: "upstream_reply \<Rightarrow> string" where
  "reply_html (Body b) =
     (case json_Unmarshal b of Inl err \<Rightarrow> [] | Inr fr \<Rightarrow> Response (Solution fr))"
| "reply_html (DoError err) = []"
| "reply_html (ReadAllError err) = []"

text \<open>
  What one attempt that is not retried writes and logs for its reply: the HTML for
  a success, the error payload and its log line otherwise.
\<close>

definition surface :: "upstream_reply \<Rightarrow> outcome" where
  "surface rp =
     (if ok_reply rp then \<lparr>resp = html_payload (reply_html rp), calls = [], logs = []\<rparr>
      else \<lparr>resp = error_payload (failure_message rp), calls = [],
            logs = [''Error: '' @ failure_message rp]\<rparr>)"

text \<open>
  The target URL of the Direct Router in the words of its description: the path
  without one leading slash, cut at its first slash into the domain and the rest,
  then the query after a question mark when there is one.
\<close>

definition strip_slash :: "string \<Rightarrow> string" where
  "strip_slash path = (if path \<noteq> [] \<and> hd path = CHR ''/'' then tl path else path)"

definition domain_of :: "string \<Rightarrow> string" where
  "domain_of path = takeWhile (\<lambda>c. c \<noteq> CHR ''/'') (strip_slash path)"

definition remaining_of :: "string \<Rightarrow> string" where
  "remaining_of path = dropWhile (\<lambda>c. c \<noteq> CHR ''/'') (strip_slash path)"

definition direct_target :: "request \<Rightarrow> string" where
  "direct_target r =
     ''https://'' @ domain_of (Path r) @ remaining_of (Path r) @
     (if RawQuery r = [] then [] else ''?'' @ RawQuery r)"


text \<open>The command of the Direct Router for a method.\<close>

definition direct_cmd :: "string \<Rightarrow> string" where
  "direct_cmd m = (if m = ''POST'' then ''request.post'' else ''request.get'')"

text \<open>The call that carries a command for a target to the upstream at \<open>base\<close>.\<close>

definition call_for :: "string \<Rightarrow> string \<Rightarrow> string \<Rightarrow> upstream_call" where
  "call_for base cmd target =
     \<lparr>call_method = ''POST'', call_url = base,
      call_header = [(''Content-Type'', ''application/json'')],
      call_body = JObject [(''cmd'', JString cmd), (''url'', JString target),
                           (''maxTimeout'', JInt 60000)]\<rparr>"

section \<open>Construction of the handlers and fixed surroundings for examples\<close>

text \<open>
  \<open>NewProxyHandler\<close> and \<open>NewDirectHandler\<close>; the argument is the value of the
  environment variable \<open>FLARESOLVERR_URL\<close> (empty when it is not set).
\<close>

definition NewProxyHandler :: "string \<Rightarrow> ProxyHandler" where
  "NewProxyHandler getenv =
     \<lparr>p_flareSolverrURL = (if getenv = [] then ''http://flaresolverr:8191/v1'' else getenv)\<rparr>"

definition NewDirectHandler :: "string \<Rightarrow> DirectHandler" where
  "NewDirectHandler getenv =
     \<lparr>d_flareSolverrURL = (if getenv = [] then ''http://flaresolverr:8191/v1'' else getenv)\<rparr>"

text \<open>A stub upstream that accepts every URL and gives the same reply to every call.\<close>

definition stub_upstream :: "upstream_reply \<Rightarrow> env" where
  "stub_upstream rp = \<lparr>NewRequest_error = (\<lambda>u. None), client_Do = (\<lambda>c. rp)\<rparr>"

text \<open>
  A stub upstream that accepts every URL, gives one reply to one given call and
  another reply to every other call.
\<close>

definition split_upstream :: "upstream_call \<Rightarrow> upstream_reply \<Rightarrow> upstream_reply \<Rightarrow> env" where
  "split_upstream c0 rp0 rp =
     \<lparr>NewRequest_error = (\<lambda>u. None), client_Do = (\<lambda>c. if c = c0 then rp0 else rp)\<rparr>"


text \<open>The warning that the Direct Router logs for a method other than GET and POST.\<close>

definition method_warning :: "string \<Rightarrow> string" where
  "method_warning m =
     ''Warning: HTTP method '' @ m @
     '' may not be fully supported by FlareSolverr, using request.get''"

section \<open>Lemmas on the string helpers\<close>

lemma Index_char:
  "strings_Index s [c] =
     (if c \<in> set s then Some (length (takeWhile (\<lambda>x. x \<noteq> c) s)) else None)"
  by (induction s) (auto simp: strings_HasPrefix_def)

lemma SplitN_char_2:
  "strings_SplitN s [c] 2 =
     (if c \<in> set s
      then [takeWhile (\<lambda>x. x \<noteq> c) s, tl (dropWhile (\<lambda>x. x \<noteq> c) s)]
      else [s])"
proof -
  have two: "(2::nat) = Suc (Suc 0)" by simp
  have "drop (Suc (length (takeWhile (\<lambda>x. x \<noteq> c) s))) s = tl (dropWhile (\<lambda>x. x \<noteq> c) s)"
    by (simp add: dropWhile_eq_drop drop_Suc tl_drop)
  moreover have "take (length (takeWhile (\<lambda>x. x \<noteq> c) s)) s = takeWhile (\<lambda>x. x \<noteq> c) s"
    by (simp add: takeWhile_eq_take [symmetric])
  ultimately show ?thesis
    unfolding two by (simp add: Index_char)
qed

lemma SplitN_nonempty: "0 < length (strings_SplitN s [c] 2)"
  by (simp add: SplitN_char_2)

lemma dropWhile_slash_shape:
  "dropWhile (\<lambda>x. x \<noteq> c) s = (if c \<in> set s then c # tl (dropWhile (\<lambda>x. x \<noteq> c) s) else [])"
  by (induction s) auto

section \<open>The shape of the two handlers\<close>

lemmas outcome_defs =
  record_call_def log_Printf_def respond_def p_sendError_def d_sendError_def write_html_def
  StatusOK_def StatusInternalServerError_def StatusBadRequest_def StatusMethodNotAllowed_def
  error_payload_def html_payload_def surface_def

lemma new_call_call_for:
  "new_call base \<lparr>Cmd = cmd, URL = u, MaxTimeout = 60000\<rparr> = call_for base cmd u"
  by (simp add: new_call_def call_for_def json_Marshal_def)

text \<open>One attempt of \<open>forwardToFlareSolverr\<close> on a URL that is not an \<open>https://\<close> one.\<close>

lemma forward_plain:
  assumes "NewRequest_error e (d_flareSolverrURL d) = None"
    and "\<not> strings_HasPrefix u ''https://''"
  shows "d_forwardToFlareSolverr e d u cmd =
           record_call (call_for (d_flareSolverrURL d) cmd u)
             (surface (client_Do e (call_for (d_flareSolverrURL d) cmd u)))"
proof (cases "client_Do e (call_for (d_flareSolverrURL d) cmd u)")
  case (Body b)
  then show ?thesis
    using assms
    by (subst d_forwardToFlareSolverr.simps)
       (simp add: new_call_call_for outcome_defs split: sum.splits)
qed (use assms in \<open>subst d_forwardToFlareSolverr.simps, simp add: new_call_call_for outcome_defs\<close>)+
text \<open>One attempt on an \<open>https://\<close> URL, with its single fallback.\<close>

lemma forward_https:
  assumes nr: "NewRequest_error e (d_flareSolverrURL d) = None"
    and pre: "strings_HasPrefix u ''https://''"
  shows "d_forwardToFlareSolverr e d u cmd =
           (if reported_failure (client_Do e (call_for (d_flareSolverrURL d) cmd u))
            then record_call (call_for (d_flareSolverrURL d) cmd u)
                   (log_Printf (''HTTPS failed, trying HTTP fallback for: '' @ ''http://'' @ drop 8 u)
                      (record_call (call_for (d_flareSolverrURL d) cmd (''http://'' @ drop 8 u))
                         (surface (client_Do e
                            (call_for (d_flareSolverrURL d) cmd (''http://'' @ drop 8 u))))))
            else record_call (call_for (d_flareSolverrURL d) cmd u)
                   (surface (client_Do e (call_for (d_flareSolverrURL d) cmd u))))"
proof -
  have len: "length ''https://'' = 8"
    by simp
  have "strings_Replace u ''https://'' ''http://'' (Suc 0) = ''http://'' @ drop (length ''https://'') u"
    by (rule Replace_prefix [OF pre]) simp
  then have rep: "strings_Replace u ''https://'' ''http://'' (Suc 0) = ''http://'' @ drop 8 u"
    by (simp only: len)
  have np: "\<not> strings_HasPrefix (''http://'' @ drop 8 u) ''https://''"
    by (simp add: strings_HasPrefix_def)
  note second = forward_plain [OF nr np, of cmd]
  show ?thesis
  proof (cases "client_Do e (call_for (d_flareSolverrURL d) cmd u)")
    case (Body b)
    show ?thesis
    proof (cases "json_Unmarshal b")
      case (Inl err)
      with Body nr show ?thesis
        by (subst d_forwardToFlareSolverr.simps)
           (simp add: new_call_call_for outcome_defs)
    next
      case (Inr fr)
      show ?thesis
      proof (cases "Status fr = ''ok''")
        case True
        with Inr Body nr show ?thesis
          by (subst d_forwardToFlareSolverr.simps)
             (simp add: new_call_call_for outcome_defs)
      next
        case False
        have "d_forwardToFlareSolverr e d u cmd =
                record_call (call_for (d_flareSolverrURL d) cmd u)
                  (log_Printf (''HTTPS failed, trying HTTP fallback for: '' @ ''http://'' @ drop 8 u)
                     (d_forwardToFlareSolverr e d (''http://'' @ drop 8 u) cmd))"
          using False Inr Body nr pre rep
          by (subst d_forwardToFlareSolverr.simps)
             (simp add: new_call_call_for Let_def del: strings_Replace.simps)
        with False Inr Body second show ?thesis
          by simp
      qed
    qed
  qed (use nr in \<open>subst d_forwardToFlareSolverr.simps, simp add: new_call_call_for outcome_defs\<close>)+
qed

text \<open>\<open>ServeHTTP\<close> of the Direct Router on a path that passes the first check.\<close>

lemma slash_tl:
  "c \<in> set s \<Longrightarrow> c # tl (dropWhile (\<lambda>x. x \<noteq> c) s) = dropWhile (\<lambda>x. x \<noteq> c) s"
  using dropWhile_slash_shape [of c s] by simp

lemma split_join: "takeWhile P s @ dropWhile P s @ t = s @ t"
  by (simp add: append_assoc [symmetric] del: append_assoc)

lemma direct_shape:
  assumes "Path r \<noteq> ''/''" and "Path r \<noteq> []"
  shows "d_ServeHTTP e d r =
           (if Method r = ''GET'' \<or> Method r = ''POST''
            then d_forwardToFlareSolverr e d (direct_target r) (direct_cmd (Method r))
            else log_Printf (method_warning (Method r))
                   (d_forwardToFlareSolverr e d (direct_target r) (direct_cmd (Method r))))"
proof (cases "hd (Path r) = CHR ''/''")
  case True
  then show ?thesis
    using assms
    by (simp add: d_ServeHTTP_def Let_def direct_target_def direct_cmd_def method_warning_def
          SplitN_char_2 slash_tl split_join domain_of_def remaining_of_def strip_slash_def
          del: strings_SplitN.simps)
next
  case False
  then show ?thesis
    using assms
    by (simp add: d_ServeHTTP_def Let_def direct_target_def direct_cmd_def method_warning_def
          SplitN_char_2 slash_tl split_join domain_of_def remaining_of_def strip_slash_def
          del: strings_SplitN.simps)
qed

lemma surface_code:
  "code (resp (surface rp)) = (if ok_reply rp then 200 else 500)"
  by (simp add: outcome_defs)

lemma surface_calls [simp]: "calls (surface rp) = []"
  by (simp add: outcome_defs)

lemma record_call_simps [simp]:
  "resp (record_call c out) = resp out"
  "calls (record_call c out) = c # calls out"
  "logs (record_call c out) = logs out"
  by (simp_all add: record_call_def)

lemma log_Printf_simps [simp]:
  "resp (log_Printf l out) = resp out"
  "calls (log_Printf l out) = calls out"
  "logs (log_Printf l out) = l # logs out"
  by (simp_all add: log_Printf_def)

lemma http_Error_simps [simp]:
  "code (resp (http_Error msg c)) = c"
  "body (resp (http_Error msg c)) = Bytes (msg @ [CHR 0x0A])"
  "calls (http_Error msg c) = []"
  by (simp_all add: http_Error_def respond_def)

lemma sendError_simps [simp]:
  "resp (d_sendError m) = error_payload m"
  "calls (d_sendError m) = []"
  "logs (d_sendError m) = [''Error: '' @ m]"
  "resp (p_sendError m) = error_payload m"
  "calls (p_sendError m) = []"
  "logs (p_sendError m) = [''Error: '' @ m]"
  by (simp_all add: outcome_defs)

lemma target_https [simp]: "strings_HasPrefix (direct_target r) ''https://''"
  by (simp add: direct_target_def strings_HasPrefix_def)

lemma forward_no_request:
  assumes "NewRequest_error e (d_flareSolverrURL d) = Some err"
  shows "d_forwardToFlareSolverr e d u cmd = d_sendError (''Failed to create request: '' @ err)"
  using assms by (subst d_forwardToFlareSolverr.simps) simp

lemma forward_code:
  "code (resp (d_forwardToFlareSolverr e d u cmd)) = 200 \<or>
   code (resp (d_forwardToFlareSolverr e d u cmd)) = 500"
proof (cases "NewRequest_error e (d_flareSolverrURL d)")
  case None
  then show ?thesis
    by (cases "strings_HasPrefix u ''https://''")
       (simp_all add: forward_https forward_plain surface_code)
next
  case (Some err)
  then show ?thesis
    by (simp add: forward_no_request error_payload_def)
qed

lemma direct_code:
  assumes "Path r \<noteq> ''/''" and "Path r \<noteq> []"
  shows "code (resp (d_ServeHTTP e d r)) = 200 \<or> code (resp (d_ServeHTTP e d r)) = 500"
  using forward_code [of e d "direct_target r" "direct_cmd (Method r)"]
  by (simp add: direct_shape [OF assms])

section \<open>What a request to the Direct Router does, call by call\<close>










lemma key_is_tags [simp]:
  "key_is ''status'' ''solution'' = False"
  "key_is ''status'' ''status'' = True"
  "key_is ''message'' ''solution'' = False"
  "key_is ''message'' ''status'' = False"
  "key_is ''message'' ''message'' = True"
  "key_is ''solution'' ''solution'' = True"
  "key_is ''response'' ''response'' = True"
  "key_is ''status'' ''response'' = False"
  by (simp_all add: key_is_def ascii_upper_def)



lemma stub_accepts [simp]: "NewRequest_error (stub_upstream rp) u = None"
  by (simp add: stub_upstream_def)

lemma stub_reply [simp]: "client_Do (stub_upstream rp) c = rp"
  by (simp add: stub_upstream_def)

lemma default_direct_url [simp]:
  "d_flareSolverrURL (NewDirectHandler []) = ''http://flaresolverr:8191/v1''"
  by (simp add: NewDirectHandler_def)

lemma default_proxy_url [simp]:
  "p_flareSolverrURL (NewProxyHandler []) = ''http://flaresolverr:8191/v1''"
  by (simp add: NewProxyHandler_def)

section \<open>The reply that decides the response\<close>








lemma split_accepts [simp]: "NewRequest_error (split_upstream c0 rp0 rp) u = None"
  by (simp add: split_upstream_def)

lemma split_reply [simp]:
  "client_Do (split_upstream c0 rp0 rp) c = (if c = c0 then rp0 else rp)"
  by (simp add: split_upstream_def)





section \<open>The claims\<close>

text \<open>
  C10. The second \<open>Invalid URL format\<close> branch of the Direct Router is dead:
  splitting any string at its first slash gives at least one piece, and the router
  answers 400 exactly for the paths \<open>/\<close> and the empty one, which the first check
  rejects.
\<close>

theorem second_invalid_format_unreachable:
  "length (strings_SplitN p ''/'' 2) \<noteq> 0 \<and>
   (code (resp (d_ServeHTTP e d r)) = 400 \<longleftrightarrow> Path r = ''/'' \<or> Path r = [])"
proof -
  have "length (strings_SplitN p ''/'' 2) \<noteq> 0"
    using SplitN_nonempty [of p "CHR ''/''"] by simp
  moreover have "code (resp (d_ServeHTTP e d r)) = 400" if "Path r = ''/'' \<or> Path r = []"
    using that by (auto simp: d_ServeHTTP_def StatusBadRequest_def)
  moreover have "Path r = ''/'' \<or> Path r = []" if "code (resp (d_ServeHTTP e d r)) = 400"
    using that direct_code [of r e d] by auto
  ultimately show ?thesis
    by blast
qed

text \<open>
  C8, as amended. A local validation failure never reaches the upstream: the Direct
  Router answers 400 to the paths \<open>/\<close> and the empty one; the Proxy Router answers
  405 to CONNECT, with a body that contains \<open>CONNECT method is not supported\<close>, and
  405 to every other method but GET, with the body \<open>Method not allowed\<close> followed
  by a newline. No upstream call is made in any of these cases.
\<close>

theorem local_validation_never_reaches_upstream:
  "(Path r = ''/'' \<or> Path r = [] \<longrightarrow>
      code (resp (d_ServeHTTP e d r)) = 400 \<and> calls (d_ServeHTTP e d r) = []) \<and>
   (Method r = ''CONNECT'' \<longrightarrow>
      code (resp (p_ServeHTTP e p r)) = 405 \<and>
      body (resp (p_ServeHTTP e p r)) = Bytes connect_message \<and>
      strings_Contains connect_message ''CONNECT method is not supported'' \<and>
      calls (p_ServeHTTP e p r) = []) \<and>
   (Method r \<noteq> ''GET'' \<and> Method r \<noteq> ''CONNECT'' \<longrightarrow>
      code (resp (p_ServeHTTP e p r)) = 405 \<and>
      body (resp (p_ServeHTTP e p r)) = Bytes (''Method not allowed'' @ [CHR 0x0A]) \<and>
      calls (p_ServeHTTP e p r) = [])"
proof -
  have "strings_Contains connect_message ''CONNECT method is not supported''"
    by (simp add: strings_Contains_def connect_message_def strings_HasPrefix_def)
  then show ?thesis
    by (auto simp: d_ServeHTTP_def p_ServeHTTP_def p_sendConnectError_def respond_def
          StatusBadRequest_def StatusMethodNotAllowed_def)
qed

theorem local_validation_witness:
  "code (resp (d_ServeHTTP (stub_upstream (DoError ''refused'')) (NewDirectHandler [])
      \<lparr>Method = ''GET'', URL_String = ''/'', Path = ''/'', RawQuery = []\<rparr>)) = 400 \<and>
   calls (d_ServeHTTP (stub_upstream (DoError ''refused'')) (NewDirectHandler [])
      \<lparr>Method = ''GET'', URL_String = ''/'', Path = ''/'', RawQuery = []\<rparr>) = [] \<and>
   code (resp (p_ServeHTTP (stub_upstream (DoError ''refused'')) (NewProxyHandler [])
      \<lparr>Method = ''CONNECT'', URL_String = ''//example.com:443'', Path = [], RawQuery = []\<rparr>)) = 405 \<and>
   calls (p_ServeHTTP (stub_upstream (DoError ''refused'')) (NewProxyHandler [])
      \<lparr>Method = ''CONNECT'', URL_String = ''//example.com:443'', Path = [], RawQuery = []\<rparr>) = [] \<and>
   body (resp (p_ServeHTTP (stub_upstream (DoError ''refused'')) (NewProxyHandler [])
      \<lparr>Method = ''POST'', URL_String = ''http://example.com'', Path = [], RawQuery = []\<rparr>)) =
     Bytes (''Method not allowed'' @ [CHR 0x0A]) \<and>
   calls (p_ServeHTTP (stub_upstream (DoError ''refused'')) (NewProxyHandler [])
      \<lparr>Method = ''POST'', URL_String = ''http://example.com'', Path = [], RawQuery = []\<rparr>) = []"
  using
    local_validation_never_reaches_upstream [of
      "\<lparr>Method = ''GET'', URL_String = ''/'', Path = ''/'', RawQuery = []\<rparr>"
      "stub_upstream (DoError ''refused'')" "NewDirectHandler []" "NewProxyHandler []"]
    local_validation_never_reaches_upstream [of
      "\<lparr>Method = ''CONNECT'', URL_String = ''//example.com:443'', Path = [], RawQuery = []\<rparr>"
      "stub_upstream (DoError ''refused'')" "NewDirectHandler []" "NewProxyHandler []"]
    local_validation_never_reaches_upstream [of
      "\<lparr>Method = ''POST'', URL_String = ''http://example.com'', Path = [], RawQuery = []\<rparr>"
      "stub_upstream (DoError ''refused'')" "NewDirectHandler []" "NewProxyHandler []"]
  by simp

text \<open>
  C8 as it is stated fails in its last part: the body of the 405 answer to a POST
  is not the bare text \<open>Method not allowed\<close>.
\<close>

theorem method_not_allowed_body_counterexample:
  "body (resp (p_ServeHTTP (stub_upstream (DoError ''refused'')) (NewProxyHandler [])
      \<lparr>Method = ''POST'', URL_String = ''http://example.com'', Path = [], RawQuery = []\<rparr>)) \<noteq>
     Bytes ''Method not allowed''"
  by (simp add: p_ServeHTTP_def)






















end
